theory Spec2Isabelle
  imports Main "HOL-Library.Word"
begin

section \<open>RapidoDB: the RQL driver, the stored item and the request pipeline\<close>

text \<open>
  A shallow embedding of \<^verbatim>\<open>rql/driver.go\<close>, of the earlier driver kept in
  \<^verbatim>\<open>unnamed/part_001\<close>, of \<^verbatim>\<open>db/item.go\<close> and of the statement model that
  the parser test \<^verbatim>\<open>unnamed/part_000\<close> builds.  Go's \<^verbatim>\<open>uint\<close> and \<^verbatim>\<open>int64\<close>
  are 64-bit words (a 64-bit platform): arithmetic wraps, \<open>sint\<close> reads a word as a
  signed number.  A \<^verbatim>\<open>time.Duration\<close> is an \<^verbatim>\<open>int64\<close> count of nanoseconds.
\<close>

subsection \<open>Machine integers and durations\<close>

type_synonym uint = "64 word"
type_synonym int64 = "64 word"
type_synonym Duration = "64 word"

text \<open>Go's \<^verbatim>\<open>time.Millisecond\<close>: one million nanoseconds.\<close>

definition Millisecond :: Duration where
  "Millisecond = 1000000"

subsection \<open>The statement model (as the parser test constructs it)\<close>

record SetStatement =
  key :: string
  val :: string
  exp :: uint

record DeleteStatement =
  keys :: "string list"

record GetStatement =
  keys :: "string list"

record AuthStatement =
  username :: string
  password :: string

datatype StatementType = SetType | GetType | DeleteType | AuthType

text \<open>
  A statement is a struct of four pointers and a tag; a nil pointer is \<open>None\<close>.
\<close>

record Statement =
  SetStatement :: "SetStatement option"
  GetStatement :: "GetStatement option"
  DeleteStatement :: "DeleteStatement option"
  AuthStatement :: "AuthStatement option"
  Typ :: StatementType

record Ast =
  Statements :: "Statement list"

text \<open>
  The four shapes of statement the test builds: one payload, the other pointers nil,
  and the matching tag.
\<close>

definition set_statement :: "string \<Rightarrow> string \<Rightarrow> uint \<Rightarrow> Statement" where
  "set_statement k v e =
     \<lparr>SetStatement = Some \<lparr>key = k, val = v, exp = e\<rparr>, GetStatement = None,
      DeleteStatement = None, AuthStatement = None, Typ = SetType\<rparr>"

definition get_statement :: "string list \<Rightarrow> Statement" where
  "get_statement ks =
     \<lparr>SetStatement = None, GetStatement = Some \<lparr>keys = ks\<rparr>,
      DeleteStatement = None, AuthStatement = None, Typ = GetType\<rparr>"

definition delete_statement :: "string list \<Rightarrow> Statement" where
  "delete_statement ks =
     \<lparr>SetStatement = None, GetStatement = None,
      DeleteStatement = Some \<lparr>DeleteStatement.keys = ks\<rparr>, AuthStatement = None,
      Typ = DeleteType\<rparr>"

definition auth_statement :: "string \<Rightarrow> string \<Rightarrow> Statement" where
  "auth_statement u p =
     \<lparr>SetStatement = None, GetStatement = None, DeleteStatement = None,
      AuthStatement = Some \<lparr>username = u, password = p\<rparr>, Typ = AuthType\<rparr>"

subsection \<open>The database interfaces the drivers expect\<close>

text \<open>
  The payload type \<^verbatim>\<open>interface{}\<close>: the driver stores strings only, and a missing
  key is answered with the nil interface.
\<close>

datatype iface = nil | Str string

text \<open>
  The interface \<^verbatim>\<open>DB\<close> of the earlier driver and its extension \<^verbatim>\<open>SecureDB\<close>.
  A method may change the state \<open>'s\<close> behind the interface, so each one takes the
  state and returns the new one.  \<open>Get\<close> returns Go's pair (value, ok).
\<close>

record 's DB =
  Set :: "string \<Rightarrow> iface \<Rightarrow> Duration \<Rightarrow> 's \<Rightarrow> 's"
  Get :: "string \<Rightarrow> 's \<Rightarrow> (iface \<times> bool) \<times> 's"

record 's SecureDB = "'s DB" +
  Authenticate :: "string \<Rightarrow> string \<Rightarrow> 's \<Rightarrow> bool \<times> 's"

subsection \<open>Helper functions of the driver\<close>

text \<open>\<^verbatim>\<open>time.Duration(t * 1000)\<close>: the product wraps in \<^verbatim>\<open>uint\<close>, the cast keeps the bits.\<close>

definition convertToDuration :: "uint \<Rightarrow> Duration" where
  "convertToDuration t = t * 1000"

text \<open>
  \<^verbatim>\<open>fmt.Sprintf("%v", res)\<close> on a slice of interfaces: the elements separated by one
  space, between square brackets; nil prints as \<^verbatim>\<open><nil>\<close>, a string as itself.
\<close>

fun render :: "iface \<Rightarrow> string" where
  "render nil = ''<nil>''"
| "render (Str s) = s"

fun join_space :: "string list \<Rightarrow> string" where
  "join_space [] = []"
| "join_space [x] = x"
| "join_space (x # y # zs) = x @ '' '' @ join_space (y # zs)"

definition stringify :: "iface list \<Rightarrow> string" where
  "stringify any = ''['' @ join_space (map render any) @ '']''"

text \<open>
  The \<^verbatim>\<open>io.Writer\<close> is the list of the byte strings written to it so far, one
  element for each call of \<^verbatim>\<open>Write\<close>.
\<close>

type_synonym Writer = "string list"

definition errRes :: "string \<Rightarrow> Writer \<Rightarrow> Writer" where
  "errRes msg w = w @ [''ERROR: '' @ msg @ [CHR 0x0A]]"

definition res :: "string \<Rightarrow> Writer \<Rightarrow> Writer" where
  "res msg w = w @ [msg @ [CHR 0x0A]]"

subsection \<open>The statement handlers of \<^verbatim>\<open>rql/driver.go\<close>\<close>

definition Driver_set :: "('s, 'm) SecureDB_scheme \<Rightarrow> SetStatement \<Rightarrow> 's \<Rightarrow> string \<times> 's" where
  "Driver_set db stmt s =
     (''Success'', Set db (key stmt) (Str (val stmt)) (convertToDuration (exp stmt)) s)"

text \<open>The loop of \<^verbatim>\<open>get\<close>: \<open>acc\<close> is the slice \<^verbatim>\<open>res\<close> built so far.\<close>

fun get_loop :: "('s, 'm) DB_scheme \<Rightarrow> string list \<Rightarrow> iface list \<Rightarrow> 's \<Rightarrow> iface list \<times> 's" where
  "get_loop db [] acc s = (acc, s)"
| "get_loop db (k # ks) acc s =
     (case Get db k s of
        ((v, ok), s') \<Rightarrow>
          if ok then get_loop db ks (acc @ [v]) s'
          else get_loop db ks (acc @ [nil]) s')"

definition Driver_get :: "('s, 'm) SecureDB_scheme \<Rightarrow> GetStatement \<Rightarrow> 's \<Rightarrow> string \<times> 's" where
  "Driver_get db stmt s =
     (case get_loop db (keys stmt) [] s of (r, s') \<Rightarrow> (stringify r, s'))"

definition Driver_auth :: "('s, 'm) SecureDB_scheme \<Rightarrow> AuthStatement \<Rightarrow> 's \<Rightarrow> string \<times> 's" where
  "Driver_auth db stmt s =
     (case Authenticate db (username stmt) (password stmt) s of
        (ok, s') \<Rightarrow>
          if ok then (''Successfully authenticated'', s')
          else (''Invalid Credentials'', s'))"

subsection \<open>\<^verbatim>\<open>Operate\<close>\<close>

text \<open>
  A handler dereferences the pointer it is given, so a statement whose tag names a
  nil payload panics; what was written before stays written.
\<close>

datatype panic = NilDereference

type_synonym 's outcome = "(panic \<times> Writer \<times> 's) + (Writer \<times> 's)"

text \<open>The body of the \<^verbatim>\<open>switch\<close>: it has no case for \<open>DeleteType\<close> and no default.\<close>

definition exec_stmt :: "('s, 'm) SecureDB_scheme \<Rightarrow> Statement \<Rightarrow> Writer \<Rightarrow> 's \<Rightarrow> 's outcome" where
  "exec_stmt db stmt w s =
     (case Typ stmt of
        SetType \<Rightarrow>
          (case SetStatement stmt of
             None \<Rightarrow> Inl (NilDereference, w, s)
           | Some st \<Rightarrow> (case Driver_set db st s of (msg, s') \<Rightarrow> Inr (res msg w, s')))
      | GetType \<Rightarrow>
          (case GetStatement stmt of
             None \<Rightarrow> Inl (NilDereference, w, s)
           | Some st \<Rightarrow> (case Driver_get db st s of (msg, s') \<Rightarrow> Inr (res msg w, s')))
      | AuthType \<Rightarrow>
          (case AuthStatement stmt of
             None \<Rightarrow> Inl (NilDereference, w, s)
           | Some st \<Rightarrow> (case Driver_auth db st s of (msg, s') \<Rightarrow> Inr (res msg w, s')))
      | DeleteType \<Rightarrow> Inr (w, s))"

text \<open>The loop over \<^verbatim>\<open>ast.Statements\<close>.\<close>

fun exec_stmts :: "('s, 'm) SecureDB_scheme \<Rightarrow> Statement list \<Rightarrow> Writer \<Rightarrow> 's \<Rightarrow> 's outcome" where
  "exec_stmts db [] w s = Inr (w, s)"
| "exec_stmts db (stmt # stmts) w s =
     (case exec_stmt db stmt w s of
        Inl p \<Rightarrow> Inl p
      | Inr (w', s') \<Rightarrow> exec_stmts db stmts w' s')"

text \<open>
  \<^verbatim>\<open>Parse\<close> is not part of the files modelled here, so \<open>Operate\<close> takes it as its
  first argument: a function from the source text to Go's pair of an \<^verbatim>\<open>*Ast\<close> (nil
  is \<open>None\<close>) and an \<^verbatim>\<open>error\<close> (nil is \<open>None\<close>, otherwise the text of \<^verbatim>\<open>err.Error()\<close>).
\<close>

type_synonym parser = "string \<Rightarrow> Ast option \<times> string option"

definition Operate :: "parser \<Rightarrow> ('s, 'm) SecureDB_scheme \<Rightarrow> string \<Rightarrow> Writer \<Rightarrow> 's \<Rightarrow> 's outcome" where
  "Operate parse db src w s =
     (case parse src of
        (ast, Some err) \<Rightarrow> Inr (errRes err w, s)
      | (None, None) \<Rightarrow> Inr (w, s)
      | (Some ast, None) \<Rightarrow> exec_stmts db (Statements ast) w s)"

text \<open>What an outcome leaves in the writer and behind the interface.\<close>

fun written :: "'s outcome \<Rightarrow> Writer" where
  "written (Inl (p, w, s)) = w"
| "written (Inr (w, s)) = w"

fun final_state :: "'s outcome \<Rightarrow> 's" where
  "final_state (Inl (p, w, s)) = s"
| "final_state (Inr (w, s)) = s"

subsection \<open>The get handler of the earlier driver (\<^verbatim>\<open>unnamed/part_001\<close>)\<close>

text \<open>The earlier loop appends a value only when the key is found.\<close>

fun get_loop_part001 :: "('s, 'm) DB_scheme \<Rightarrow> string list \<Rightarrow> iface list \<Rightarrow> 's \<Rightarrow> iface list \<times> 's" where
  "get_loop_part001 db [] acc s = (acc, s)"
| "get_loop_part001 db (k # ks) acc s =
     (case Get db k s of
        ((v, ok), s') \<Rightarrow>
          if ok then get_loop_part001 db ks (acc @ [v]) s'
          else get_loop_part001 db ks acc s')"

definition Driver_get_part001 :: "('s, 'm) DB_scheme \<Rightarrow> GetStatement \<Rightarrow> 's \<Rightarrow> string \<times> 's" where
  "Driver_get_part001 db stmt s =
     (case get_loop_part001 db (keys stmt) [] s of (r, s') \<Rightarrow> (stringify r, s'))"

subsection \<open>Vocabulary for the statements about the get handlers\<close>

text \<open>
  The state in which the loop looks a key up is the state the earlier lookups left;
  \<open>lookup_state db ks s\<close> is the state after looking up the keys \<open>ks\<close> in order.
  \<open>slot db k s\<close> is what the position of the key \<open>k\<close> holds when it is looked up
  in \<open>s\<close>: the value found, or nil.  \<open>all_found db ks s\<close> holds when every lookup
  the loop makes for \<open>ks\<close>, from \<open>s\<close>, answers ok.
\<close>

fun lookup_state :: "('s, 'm) DB_scheme \<Rightarrow> string list \<Rightarrow> 's \<Rightarrow> 's" where
  "lookup_state db [] s = s"
| "lookup_state db (k # ks) s = lookup_state db ks (snd (Get db k s))"

definition slot :: "('s, 'm) DB_scheme \<Rightarrow> string \<Rightarrow> 's \<Rightarrow> iface" where
  "slot db k s = (case Get db k s of ((v, ok), s') \<Rightarrow> if ok then v else nil)"

fun all_found :: "('s, 'm) DB_scheme \<Rightarrow> string list \<Rightarrow> 's \<Rightarrow> bool" where
  "all_found db [] s = True"
| "all_found db (k # ks) s = (snd (fst (Get db k s)) \<and> all_found db ks (snd (Get db k s)))"

section \<open>The stored item (\<^verbatim>\<open>db/item.go\<close>)\<close>

text \<open>
  A \<^verbatim>\<open>time.Time\<close> is the number of nanoseconds since the Unix epoch, an unbounded
  integer (Go keeps seconds and nanoseconds apart, so \<^verbatim>\<open>Add\<close> does not overflow on
  any date a clock shows).  \<^verbatim>\<open>UnixNano\<close> and \<^verbatim>\<open>Unix\<close> return an \<^verbatim>\<open>int64\<close>;
  \<^verbatim>\<open>Unix\<close> counts whole seconds, rounded down.
\<close>

type_synonym Time = int

definition Time_Add :: "Time \<Rightarrow> Duration \<Rightarrow> Time" where
  "Time_Add t d = t + sint d"

definition Time_UnixNano :: "Time \<Rightarrow> int64" where
  "Time_UnixNano t = word_of_int t"

definition Time_Unix :: "Time \<Rightarrow> int64" where
  "Time_Unix t = word_of_int (t div 1000000000)"

record 'd Item =
  expireAt :: int64
  data :: 'd

text \<open>
  The constant \<^verbatim>\<open>NeverExpire\<close> is declared outside the files modelled here.  It is
  untyped in Go (it is assigned to an \<^verbatim>\<open>int64\<close> and compared with a
  \<^verbatim>\<open>time.Duration\<close>), so it is one 64-bit value, the first argument \<open>ne\<close> of the
  functions that use it.  The second argument is what \<^verbatim>\<open>time.Now()\<close> returns.
\<close>

definition newItem :: "int64 \<Rightarrow> Time \<Rightarrow> 'd \<Rightarrow> Duration \<Rightarrow> 'd Item" where
  "newItem ne now d expireIn =
     (let expiry = (if expireIn \<noteq> ne then Time_UnixNano (Time_Add now expireIn) else ne)
      in \<lparr>expireAt = expiry, data = d\<rparr>)"

definition isExpired :: "int64 \<Rightarrow> Time \<Rightarrow> 'd Item \<Rightarrow> bool" where
  "isExpired ne now item =
     (if expireAt item = ne then False else expireAt item <s Time_Unix now)"

section \<open>The store and the session\<close>

text \<open>
  Modelled from the spec: the packages \<^verbatim>\<open>store\<close> and \<^verbatim>\<open>security\<close> are missing
  from the sources; only their use in \<^verbatim>\<open>DB/db.go\<close> and the item above are there.
  The store is the spec's mapping from key to item with a default expiry; \<open>Store_Set\<close>
  replaces the item of a key, \<open>Store_Get\<close> answers a key whose item is there and
  not expired (\<open>None\<close> is Go's \<^verbatim>\<open>(nil, false)\<close>), \<open>Store_Delete\<close> removes the
  mapping.  A caller that has no duration of its own passes \<open>DefaultExpiry\<close>, as
  \<^verbatim>\<open>DB/db.go\<close> does.
\<close>

record 'd Store =
  items :: "string \<rightharpoonup> 'd Item"
  DefaultExpiry :: Duration

definition Store_New :: "Duration \<Rightarrow> 'd Store" where
  "Store_New expiry = \<lparr>items = Map.empty, DefaultExpiry = expiry\<rparr>"

text \<open>
  Modelled from the spec: \<^verbatim>\<open>set(key, value, ttl)\<close> of the missing
  store inserts or replaces the item of the key; the item is made by \<open>newItem\<close>.
\<close>

definition Store_Set :: "int64 \<Rightarrow> Time \<Rightarrow> string \<Rightarrow> 'd \<Rightarrow> Duration \<Rightarrow> 'd Store \<Rightarrow> 'd Store" where
  "Store_Set ne now k d expireIn st = st\<lparr>items := (items st)(k \<mapsto> newItem ne now d expireIn)\<rparr>"

text \<open>
  Modelled from the spec: \<^verbatim>\<open>get(key)\<close> of the missing store returns
  the value and true for a key whose item is not expired, and found = false otherwise.
\<close>

definition Store_Get :: "int64 \<Rightarrow> Time \<Rightarrow> string \<Rightarrow> 'd Store \<Rightarrow> 'd option" where
  "Store_Get ne now k st =
     (case items st k of
        None \<Rightarrow> None
      | Some item \<Rightarrow> if isExpired ne now item then None else Some (data item))"

text \<open>
  Modelled from the spec: \<^verbatim>\<open>delete(key)\<close> of the missing store
  removes the mapping; deleting an absent key changes nothing.
\<close>

definition Store_Delete :: "string \<Rightarrow> 'd Store \<Rightarrow> 'd Store" where
  "Store_Delete k st = st\<lparr>items := (items st)(k := None)\<rparr>"

text \<open>
  Modelled from the spec: a registered user and the session of one connection.  The
  session refers to the two shared stores; with one connection at a time they are
  fields of its state, beside the clock that \<^verbatim>\<open>time.Now()\<close> reads.
  \<open>Session_Authenticate\<close> looks the user up in the user store and checks the
  password; \<open>Session_Set\<close> and \<open>Session_Get\<close> delegate to the data store.
\<close>

datatype AccessLevel = AdminAccess

record RegisteredUser =
  Username :: string
  Password :: string
  Access :: AccessLevel

definition NewRegisteredUser :: "string \<Rightarrow> string \<Rightarrow> AccessLevel \<Rightarrow> RegisteredUser" where
  "NewRegisteredUser u p a = \<lparr>Username = u, Password = p, Access = a\<rparr>"

record Session =
  clock :: Time
  store :: "iface Store"
  usersStore :: "RegisteredUser Store"
  authenticated :: bool
  activeUser :: "RegisteredUser option"

text \<open>
  Modelled from the spec: \<^verbatim>\<open>authenticate\<close> of the missing security
  wrapper; on a match it sets the flag and records the user, otherwise it leaves the
  session as it is.
\<close>

definition Session_Authenticate :: "int64 \<Rightarrow> string \<Rightarrow> string \<Rightarrow> Session \<Rightarrow> bool \<times> Session" where
  "Session_Authenticate ne u p s =
     (case Store_Get ne (clock s) u (usersStore s) of
        None \<Rightarrow> (False, s)
      | Some ru \<Rightarrow>
          if Password ru = p then (True, s\<lparr>authenticated := True, activeUser := Some ru\<rparr>)
          else (False, s))"

text \<open>
  Modelled from the spec: \<^verbatim>\<open>set\<close> and \<^verbatim>\<open>get\<close>
  of the missing security wrapper delegate to the data store and are not gated by the flag.
\<close>

definition Session_Set :: "int64 \<Rightarrow> string \<Rightarrow> iface \<Rightarrow> Duration \<Rightarrow> Session \<Rightarrow> Session" where
  "Session_Set ne k d expireIn s = s\<lparr>store := Store_Set ne (clock s) k d expireIn (store s)\<rparr>"

definition Session_Get :: "int64 \<Rightarrow> string \<Rightarrow> Session \<Rightarrow> (iface \<times> bool) \<times> Session" where
  "Session_Get ne k s =
     (case Store_Get ne (clock s) k (store s) of
        None \<Rightarrow> ((nil, False), s)
      | Some v \<Rightarrow> ((v, True), s))"

definition Session_DB :: "int64 \<Rightarrow> Session SecureDB" where
  "Session_DB ne =
     \<lparr>Set = Session_Set ne, Get = Session_Get ne, Authenticate = Session_Authenticate ne\<rparr>"

text \<open>
  \<^verbatim>\<open>New\<close> and \<^verbatim>\<open>createTransDriver\<close> of \<^verbatim>\<open>DB/db.go\<close>: two stores that never expire
  by default, the bootstrap user stored under its name with the default expiry, and
  a fresh session over the two (not authenticated).
\<close>

definition RapidoDB_New :: "int64 \<Rightarrow> Time \<Rightarrow> string \<Rightarrow> string \<Rightarrow> Session" where
  "RapidoDB_New ne now u p =
     (let storage = Store_New ne;
          usersDB = Store_New ne;
          usersDB' = Store_Set ne now u (NewRegisteredUser u p AdminAccess) (DefaultExpiry usersDB) usersDB
      in \<lparr>clock = now, store = storage, usersStore = usersDB',
          authenticated = False, activeUser = None\<rparr>)"

text \<open>Time passing between two requests.\<close>

definition advance :: "int \<Rightarrow> Session \<Rightarrow> Session" where
  "advance d s = s\<lparr>clock := clock s + d\<rparr>"

section \<open>The lexer and the parser\<close>

text \<open>
  Modelled from the spec: \<^verbatim>\<open>Parse\<close>, its lexer and its error type are missing from
  the sources (only the test of \<^verbatim>\<open>Parse\<close> is there).  The token kinds, the lexer's
  rules and the grammar
  \<^verbatim>\<open>program := statement (';' statement)* ';'?\<close>,
  \<^verbatim>\<open>statement := 'SET' IDENT value [NUMBER] | 'GET' IDENT+ | 'DEL' IDENT+ | 'AUTH' IDENT value\<close>,
  \<^verbatim>\<open>value := STRING | IDENT | NUMBER\<close>
  are the spec's.  A bare run of characters is a keyword when it is one of the four
  keywords, a number when it consists of decimal digits, an identifier otherwise.
  The spec fixes no wording for the error messages and no bound for a TTL literal:
  the messages below name the offending token and the alternatives, and a TTL is
  reduced to \<^verbatim>\<open>uint\<close>.  A statement without a TTL has \<open>exp = 0\<close>, as in the test.
\<close>

datatype TokenKind = Keyword | Identifier | StringLiteral | Number | Terminator | EndOfInput

record Token =
  kind :: TokenKind
  literal :: string
  position :: nat

datatype rql_error = LexError nat | ParseError Token "string list"

definition is_space :: "char \<Rightarrow> bool" where
  "is_space c = (c = CHR '' '' \<or> c = CHR 0x09 \<or> c = CHR 0x0A \<or> c = CHR 0x0D)"

definition is_digit :: "char \<Rightarrow> bool" where
  "is_digit c = (c \<in> set ''0123456789'')"

definition bare_token :: "nat \<Rightarrow> string \<Rightarrow> Token" where
  "bare_token start s =
     \<lparr>kind = (if s = ''SET'' \<or> s = ''GET'' \<or> s = ''DEL'' \<or> s = ''AUTH'' then Keyword
              else if list_all is_digit s then Number
              else Identifier),
      literal = s, position = start\<rparr>"

datatype lex_mode = Between | InBare nat string | InQuoted nat string

text \<open>
  Modelled from the spec: the missing lexer, one character at a time. \<open>p\<close> is
  the offset of the next character, \<open>acc\<close> the tokens so far; the mode says
  whether a bare run or a quoted literal is open, with its start and its text.
\<close>

fun lex_from :: "lex_mode \<Rightarrow> nat \<Rightarrow> Token list \<Rightarrow> string \<Rightarrow> rql_error + Token list" where
  "lex_from Between p acc [] = Inr (acc @ [\<lparr>kind = EndOfInput, literal = [], position = p\<rparr>])"
| "lex_from (InBare start b) p acc [] =
     Inr (acc @ [bare_token start b, \<lparr>kind = EndOfInput, literal = [], position = p\<rparr>])"
| "lex_from (InQuoted start b) p acc [] = Inl (LexError start)"
| "lex_from Between p acc (c # cs) =
     (if is_space c then lex_from Between (Suc p) acc cs
      else if c = CHR '';'' then
        lex_from Between (Suc p) (acc @ [\<lparr>kind = Terminator, literal = [c], position = p\<rparr>]) cs
      else if c = CHR 0x22 then lex_from (InQuoted p []) (Suc p) acc cs
      else lex_from (InBare p [c]) (Suc p) acc cs)"
| "lex_from (InBare start b) p acc (c # cs) =
     (if is_space c then lex_from Between (Suc p) (acc @ [bare_token start b]) cs
      else if c = CHR '';'' then
        lex_from Between (Suc p)
          (acc @ [bare_token start b, \<lparr>kind = Terminator, literal = [c], position = p\<rparr>]) cs
      else if c = CHR 0x22 then lex_from (InQuoted p []) (Suc p) (acc @ [bare_token start b]) cs
      else lex_from (InBare start (b @ [c])) (Suc p) acc cs)"
| "lex_from (InQuoted start b) p acc (c # cs) =
     (if c = CHR 0x22 then
        lex_from Between (Suc p) (acc @ [\<lparr>kind = StringLiteral, literal = b, position = start\<rparr>]) cs
      else lex_from (InQuoted start (b @ [c])) (Suc p) acc cs)"

definition lexer :: "string \<Rightarrow> rql_error + Token list" where
  "lexer src = lex_from Between 0 [] src"

definition decimal :: "string \<Rightarrow> nat" where
  "decimal s = foldl (\<lambda>n c. 10 * n + (of_char c - 48)) 0 s"

fun take_idents :: "Token list \<Rightarrow> string list \<times> Token list" where
  "take_idents [] = ([], [])"
| "take_idents (t # ts) =
     (if kind t = Identifier
      then (case take_idents ts of (ks, rest) \<Rightarrow> (literal t # ks, rest))
      else ([], t # ts))"

definition is_value :: "Token \<Rightarrow> bool" where
  "is_value t = (kind t = StringLiteral \<or> kind t = Identifier \<or> kind t = Number)"

definition end_token :: Token where
  "end_token = \<lparr>kind = EndOfInput, literal = [], position = 0\<rparr>"

fun parse_set :: "Token list \<Rightarrow> rql_error + Statement \<times> Token list" where
  "parse_set [] = Inl (ParseError end_token [''identifier''])"
| "parse_set [k] =
     (if kind k = Identifier then Inl (ParseError end_token [''string'', ''identifier'', ''number''])
      else Inl (ParseError k [''identifier'']))"
| "parse_set (k # v # rest) =
     (if kind k \<noteq> Identifier then Inl (ParseError k [''identifier''])
      else if \<not> is_value v then Inl (ParseError v [''string'', ''identifier'', ''number''])
      else (case rest of
              [] \<Rightarrow> Inr (set_statement (literal k) (literal v) 0, [])
            | n # rest' \<Rightarrow>
                if kind n = Number
                then Inr (set_statement (literal k) (literal v) (of_nat (decimal (literal n))), rest')
                else Inr (set_statement (literal k) (literal v) 0, rest)))"

definition parse_keys :: "(string list \<Rightarrow> Statement) \<Rightarrow> Token list \<Rightarrow> rql_error + Statement \<times> Token list" where
  "parse_keys mk ts =
     (case take_idents ts of
        ([], rest) \<Rightarrow> Inl (ParseError (case rest of [] \<Rightarrow> end_token | t # _ \<Rightarrow> t) [''identifier''])
      | (k # ks, rest) \<Rightarrow> Inr (mk (k # ks), rest))"

fun parse_auth :: "Token list \<Rightarrow> rql_error + Statement \<times> Token list" where
  "parse_auth [] = Inl (ParseError end_token [''identifier''])"
| "parse_auth [u] =
     (if kind u = Identifier then Inl (ParseError end_token [''string'', ''identifier'', ''number''])
      else Inl (ParseError u [''identifier'']))"
| "parse_auth (u # p # rest) =
     (if kind u \<noteq> Identifier then Inl (ParseError u [''identifier''])
      else if \<not> is_value p then Inl (ParseError p [''string'', ''identifier'', ''number''])
      else Inr (auth_statement (literal u) (literal p), rest))"

text \<open>
  Modelled from the spec: one statement of the grammar, chosen by its leading keyword; the
  result is the statement and the tokens that follow it.
\<close>

fun parse_statement :: "Token list \<Rightarrow> rql_error + Statement \<times> Token list" where
  "parse_statement [] = Inl (ParseError end_token [''SET'', ''GET'', ''DEL'', ''AUTH''])"
| "parse_statement (t # ts) =
     (if kind t \<noteq> Keyword then Inl (ParseError t [''SET'', ''GET'', ''DEL'', ''AUTH''])
      else if literal t = ''SET'' then parse_set ts
      else if literal t = ''GET'' then parse_keys get_statement ts
      else if literal t = ''DEL'' then parse_keys delete_statement ts
      else parse_auth ts)"

text \<open>
  Modelled from the spec: the statement sequence of the missing parser. It ends at
  end-of-input; after a statement comes end-of-input or a terminator.
\<close>

function parse_program :: "Token list \<Rightarrow> rql_error + Statement list" where
  "parse_program toks =
     (case toks of
        [] \<Rightarrow> Inr []
      | t # ts \<Rightarrow>
          if kind t = EndOfInput then Inr []
          else (case parse_statement toks of
                  Inl e \<Rightarrow> Inl e
                | Inr (stmt, rest) \<Rightarrow>
                    (case rest of
                       [] \<Rightarrow> Inr [stmt]
                     | r # rs \<Rightarrow>
                         if kind r = EndOfInput then Inr [stmt]
                         else if kind r = Terminator then
                           (case parse_program rs of
                              Inl e \<Rightarrow> Inl e
                            | Inr stmts \<Rightarrow> Inr (stmt # stmts))
                         else Inl (ParseError r ['';'']))))"
  by pat_completeness auto
termination
proof -
  have idents: "take_idents ts = (ks, rest) \<Longrightarrow> length rest \<le> length ts" for ts ks rest
    by (induction ts arbitrary: ks rest) (auto split: if_splits prod.splits)
  have sets: "parse_set ts = Inr (stmt, rest) \<Longrightarrow> length rest \<le> length ts" for ts stmt rest
    by (cases ts rule: parse_set.cases) (auto split: if_splits list.splits)
  have auths: "parse_auth ts = Inr (stmt, rest) \<Longrightarrow> length rest \<le> length ts" for ts stmt rest
    by (cases ts rule: parse_auth.cases) (auto split: if_splits)
  have keyss: "parse_keys mk ts = Inr (stmt, rest) \<Longrightarrow> length rest \<le> length ts"
    for mk ts stmt rest
    by (auto simp: parse_keys_def split: prod.splits list.splits dest: idents)
  have shorter: "parse_statement toks = Inr (stmt, rest) \<Longrightarrow> length rest < length toks"
    for toks stmt rest
    by (cases toks) (auto split: if_splits dest: sets auths keyss)
  show ?thesis
    by (relation "measure length")
       (auto simp del: parse_statement.simps dest!: shorter)
qed

fun Error_text :: "rql_error \<Rightarrow> string" where
  "Error_text (LexError p) = ''LexError: unterminated string literal''"
| "Error_text (ParseError t alts) =
     ''ParseError: unexpected token '' @ literal t @ '', expected one of: '' @ join_space alts"

text \<open>
  Modelled from the spec: the missing \<^verbatim>\<open>Parse\<close>; the AST is
  returned only when the whole source parses.
\<close>

definition Parse :: parser where
  "Parse src =
     (case lexer src of
        Inl e \<Rightarrow> (None, Some (Error_text e))
      | Inr toks \<Rightarrow>
          (case parse_program toks of
             Inl e \<Rightarrow> (None, Some (Error_text e))
           | Inr stmts \<Rightarrow> (Some \<lparr>Statements = stmts\<rparr>, None)))"

section \<open>A concrete server for the closed examples\<close>

text \<open>
  The examples run the driver on the session that \<^verbatim>\<open>DB/db.go\<close> creates, at a clock
  of 1700000000 seconds after the epoch, with the bootstrap user \<^verbatim>\<open>admin\<close>.  The
  sentinel is taken to be \<open>- 1\<close> there; \<open>example_stored\<close> is the session after
  \<^verbatim>\<open>data\<close> has been set to \<^verbatim>\<open>hello\<close> with a duration of 0.
\<close>

definition example_now :: Time where
  "example_now = 1700000000000000000"

definition example_session :: Session where
  "example_session = RapidoDB_New (- 1) example_now ''admin'' ''secret''"

definition example_stored :: Session where
  "example_stored = Session_Set (- 1) ''data'' (Str ''hello'') 0 example_session"

section \<open>Properties of the driver\<close>

subsection \<open>The loop over the statements\<close>







text \<open>
  C5.  When \<open>Parse\<close> returns an error, \<open>Operate\<close> writes the one line
  \<^verbatim>\<open>ERROR: <message>\<close> with its newline and returns: the state behind the interface
  is the one it started from, and what is written does not depend on the database.
\<close>

theorem Operate_parse_error:
  assumes "parse src = (ast, Some msg)"
  shows "Operate parse db src w s = Inr (w @ [''ERROR: '' @ msg @ [CHR 0x0A]], s)
         \<and> written (Operate parse db' src w s) = written (Operate parse db src w s)"
  using assms by (simp add: Operate_def errRes_def split: option.splits)

text \<open>
  C6.  For an Auth statement the driver calls \<open>Authenticate\<close> with the statement's
  username and password, once, and writes one line: \<^verbatim>\<open>Successfully authenticated\<close>
  when the call answers true, \<^verbatim>\<open>Invalid Credentials\<close> when it answers false.
\<close>

theorem Driver_auth_line:
  assumes "Typ st = AuthType" and "AuthStatement st = Some a"
    and "Authenticate db (username a) (password a) s = (ok, s')"
  shows "Driver_auth db a s =
           (if ok then ''Successfully authenticated'' else ''Invalid Credentials'', s')
         \<and> exec_stmt db st w s =
           Inr (w @ [(if ok then ''Successfully authenticated'' else ''Invalid Credentials'')
                     @ [CHR 0x0A]], s')"
  using assms by (simp add: exec_stmt_def Driver_auth_def res_def)

subsection \<open>The get handlers\<close>

lemma get_loop_acc:
  "get_loop db ks acc s = (acc @ fst (get_loop db ks [] s), snd (get_loop db ks [] s))"
proof (induction ks arbitrary: acc s)
  case Nil
  show ?case by simp
next
  case (Cons k ks)
  obtain v ok s' where g: "Get db k s = ((v, ok), s')"
    by (metis prod.exhaust)
  show ?case
    using Cons.IH [of "acc @ [v]" s'] Cons.IH [of "[v]" s']
          Cons.IH [of "acc @ [nil]" s'] Cons.IH [of "[nil]" s']
    by (simp add: g)
qed

lemma get_loop_length: "length (fst (get_loop db ks acc s)) = length acc + length ks"
proof (induction ks arbitrary: acc s)
  case Nil
  show ?case by simp
next
  case (Cons k ks)
  obtain v ok s' where g: "Get db k s = ((v, ok), s')"
    by (metis prod.exhaust)
  show ?case
    using Cons.IH [of "acc @ [v]" s'] Cons.IH [of "acc @ [nil]" s']
    by (simp add: g)
qed

lemma get_loop_nth:
  "i < length ks \<Longrightarrow>
   fst (get_loop db ks [] s) ! i = slot db (ks ! i) (lookup_state db (take i ks) s)"
proof (induction ks arbitrary: i s)
  case Nil
  then show ?case by simp
next
  case (Cons k ks)
  obtain v ok s' where g: "Get db k s = ((v, ok), s')"
    by (metis prod.exhaust)
  have step: "fst (get_loop db (k # ks) [] s) = slot db k s # fst (get_loop db ks [] s')"
    using get_loop_acc [of db ks "[v]" s'] get_loop_acc [of db ks "[nil]" s']
    by (simp add: g slot_def)
  show ?case
  proof (cases i)
    case 0
    then show ?thesis by (simp add: step del: get_loop.simps)
  next
    case (Suc j)
    with Cons.prems have "j < length ks" by simp
    from Cons.IH [OF this, of s'] show ?thesis
      by (simp add: step Suc g del: get_loop.simps)
  qed
qed

lemma join_space_concat:
  "join_space xs = (case xs of [] \<Rightarrow> [] | x # ys \<Rightarrow> x @ concat (map (\<lambda>y. '' '' @ y) ys))"
  by (induction xs rule: join_space.induct) simp_all

lemma render_case: "render v = (case v of nil \<Rightarrow> ''<nil>'' | Str x \<Rightarrow> x)"
  by (cases v) simp_all

lemma stringify_explicit:
  "stringify r =
     ''['' @ (case map (\<lambda>v. case v of nil \<Rightarrow> ''<nil>'' | Str x \<Rightarrow> x) r of
               [] \<Rightarrow> []
             | x # ys \<Rightarrow> x @ concat (map (\<lambda>y. '' '' @ y) ys)) @ '']''"
proof -
  have "render = (\<lambda>v. case v of nil \<Rightarrow> ''<nil>'' | Str x \<Rightarrow> x)"
    by (rule ext) (rule render_case)
  then show ?thesis
    by (simp add: stringify_def join_space_concat)
qed

lemma join_space_line_feed:
  "CHR 0x0A \<in> set (join_space xs) \<longleftrightarrow> (\<exists>x\<in>set xs. CHR 0x0A \<in> set x)"
  by (induction xs rule: join_space.induct) auto

lemma render_line_feed:
  "CHR 0x0A \<in> set (render v) \<longleftrightarrow> (\<exists>x. v = Str x \<and> CHR 0x0A \<in> set x)"
  by (cases v) simp_all

lemma stringify_line_feed:
  "CHR 0x0A \<in> set (stringify r) \<longleftrightarrow> (\<exists>x. Str x \<in> set r \<and> CHR 0x0A \<in> set x)"
proof -
  have "CHR 0x0A \<in> set (stringify r) \<longleftrightarrow> (\<exists>v\<in>set r. CHR 0x0A \<in> set (render v))"
    by (simp add: stringify_def join_space_line_feed)
  also have "\<dots> \<longleftrightarrow> (\<exists>x. Str x \<in> set r \<and> CHR 0x0A \<in> set x)"
    unfolding render_line_feed by blast
  finally show ?thesis .
qed

lemma get_loop_Session:
  "get_loop (Session_DB ne) ks acc ss =
     (acc @ map (\<lambda>k. case items (store ss) k of
                        None \<Rightarrow> nil
                      | Some item \<Rightarrow> if isExpired ne (clock ss) item then nil else data item) ks,
      ss)"
  by (induction ks arbitrary: acc)
     (auto simp: Session_DB_def Session_Get_def Store_Get_def split: option.splits)

text \<open>
  C4, as the code has it.  For a Get statement with the keys \<open>k1 \<dots> kn\<close> the sequence
  \<open>r\<close> that the handler builds has exactly \<open>n\<close> elements; its element \<open>i\<close> is what
  the lookup of key \<open>i\<close> answered (in the state the earlier lookups left), and nil when
  that lookup did not find the key.  The handler returns the line made of an opening
  bracket, the elements separated by one space each (nil as \<^verbatim>\<open><nil>\<close>, a string as
  it is) and a closing bracket; \<open>Operate\<close> writes that line and a line feed in one
  write; the line itself holds a line feed exactly when a value in \<open>r\<close> does.  On the
  session the element of a key is nil when the data store has no item for it or
  \<open>isExpired\<close> answers true for its item, and the item's data otherwise.
\<close>

theorem Driver_get_positional:
  assumes "get_loop db (keys stmt) [] s = (r, s')"
  shows "length r = length (keys stmt)
         \<and> (\<forall>i<length (keys stmt).
               r ! i = (case Get db (keys stmt ! i) (lookup_state db (take i (keys stmt)) s) of
                          ((v, ok), s'') \<Rightarrow> if ok then v else nil))
         \<and> (let line = ''['' @ (case map (\<lambda>v. case v of nil \<Rightarrow> ''<nil>'' | Str x \<Rightarrow> x) r of
                                  [] \<Rightarrow> []
                                | x # ys \<Rightarrow> x @ concat (map (\<lambda>y. '' '' @ y) ys)) @ '']''
            in Driver_get db stmt s = (line, s')
               \<and> exec_stmt db (get_statement (keys stmt)) w s = Inr (w @ [line @ [CHR 0x0A]], s')
               \<and> (CHR 0x0A \<in> set line \<longleftrightarrow> (\<exists>x. Str x \<in> set r \<and> CHR 0x0A \<in> set x)))
         \<and> get_loop (Session_DB ne) ks [] ss =
             (map (\<lambda>k. case items (store ss) k of
                          None \<Rightarrow> nil
                        | Some item \<Rightarrow> if isExpired ne (clock ss) item then nil else data item) ks,
              ss)"
proof -
  have len: "length r = length (keys stmt)"
    using get_loop_length [of db "keys stmt" "[]" s] assms by simp
  have nth: "\<forall>i<length (keys stmt).
      r ! i = (case Get db (keys stmt ! i) (lookup_state db (take i (keys stmt)) s) of
                 ((v, ok), s'') \<Rightarrow> if ok then v else nil)"
    using get_loop_nth [of _ "keys stmt" db s] assms by (simp add: slot_def)
  have drv: "Driver_get db stmt s = (stringify r, s')"
    using assms by (simp add: Driver_get_def)
  have ex: "exec_stmt db (get_statement (keys stmt)) w s = Inr (w @ [stringify r @ [CHR 0x0A]], s')"
    using assms by (simp add: exec_stmt_def get_statement_def Driver_get_def res_def)
  have ses: "get_loop (Session_DB ne) ks [] ss =
             (map (\<lambda>k. case items (store ss) k of
                          None \<Rightarrow> nil
                        | Some item \<Rightarrow> if isExpired ne (clock ss) item then nil else data item) ks,
              ss)"
    using get_loop_Session [of ne ks "[]" ss] by simp
  from len nth drv ex ses stringify_line_feed [of r] show ?thesis
    unfolding Let_def stringify_explicit [symmetric] by blast
qed

lemma get_loops_agree:
  "all_found db ks s \<Longrightarrow> get_loop db ks acc s = get_loop_part001 db ks acc s"
proof (induction ks arbitrary: acc s)
  case Nil
  show ?case by simp
next
  case (Cons k ks)
  obtain v ok s' where g: "Get db k s = ((v, ok), s')"
    by (metis prod.exhaust)
  from Cons.prems g have "ok" and "all_found db ks s'" by simp_all
  with Cons.IH [of s' "acc @ [v]"] g show ?case by simp
qed

text \<open>
  C10.  When every key of a Get statement is found, the get handler of
  \<^verbatim>\<open>rql/driver.go\<close> and the one of \<^verbatim>\<open>unnamed/part_001\<close> return the same string
  (and leave the same state).
\<close>

theorem get_renderers_agree:
  "all_found db (keys stmt) s \<Longrightarrow> Driver_get db stmt s = Driver_get_part001 db stmt s"
  by (simp add: Driver_get_def Driver_get_part001_def get_loops_agree)

text \<open>On the session, every key is found when each has a live item in the data store.\<close>

lemma all_found_Session:
  "all_found (Session_DB ne) ks s =
     list_all (\<lambda>k. Store_Get ne (clock s) k (store s) \<noteq> None) ks"
  by (induction ks) (auto simp: Session_DB_def Session_Get_def split: option.splits)

section \<open>Properties of the stored item\<close>

text \<open>
  C9.  An item created with the sentinel as its duration is never reported expired,
  whatever the sentinel is and whatever the clock shows; the store finds it at any
  later time, and so does the session.
\<close>

theorem never_expire_item:
  "\<not> isExpired ne t' (newItem ne t d ne)
   \<and> Store_Get ne t' k (Store_Set ne t k d ne st) = Some d
   \<and> fst (Session_Get ne k (advance dt (Session_Set ne k v ne s))) = (v, True)"
  by (simp add: isExpired_def newItem_def Store_Get_def Store_Set_def Session_Get_def
      Session_Set_def advance_def)

text \<open>
  C2 (the code departs from the claim).  An item is set with a duration of one second
  when the clock shows \<open>example_now\<close>.  Half a second later it is found, as claimed;
  two seconds later \<open>isExpired\<close> still answers false and the store still finds it,
  whatever the sentinel is: the expiry was stored in nanoseconds and is compared with
  the clock in seconds.
\<close>

theorem ttl_item_found_at_twice_ttl:
  "Store_Get ne (example_now + 500000000) k (Store_Set ne example_now k v 1000000000 st) = Some v
   \<and> \<not> isExpired ne (example_now + 2000000000) (newItem ne example_now v 1000000000)
   \<and> Store_Get ne (example_now + 2000000000) k (Store_Set ne example_now k v 1000000000 st) = Some v"
  by (simp add: Store_Get_def Store_Set_def newItem_def isExpired_def example_now_def
      Time_Add_def Time_UnixNano_def Time_Unix_def word_sless_alt)

text \<open>
  The same for every clock after the epoch and every positive duration (as long as
  the times fit an \<^verbatim>\<open>int64\<close>): at twice the duration the item is still found.
\<close>

lemma expiry_in_nanoseconds_outlives_twice_ttl:
  assumes "0 \<le> now" and "0 < sint t" and "now + 2 * sint t < 2 ^ 63"
  shows "Store_Get ne (now + 2 * sint t) k (Store_Set ne now k v t st) = Some v"
proof -
  let ?x = "now + sint t" and ?y = "(now + 2 * sint t) div 1000000000"
  have x: "sint (word_of_int ?x :: 64 word) = ?x"
    unfolding sint_sbintrunc' using assms by (intro signed_take_bit_int_eq_self) simp_all
  have "0 \<le> ?y" and "?y \<le> ?x" using assms by simp_all
  then have y: "sint (word_of_int ?y :: 64 word) = ?y"
    unfolding sint_sbintrunc' using assms by (intro signed_take_bit_int_eq_self) simp_all
  have "\<not> (word_of_int ?x :: 64 word) <s word_of_int ?y"
    unfolding word_sless_alt x y using \<open>?y \<le> ?x\<close> by simp
  then show ?thesis
    by (simp add: Store_Get_def Store_Set_def newItem_def isExpired_def
        Time_Add_def Time_UnixNano_def Time_Unix_def)
qed

text \<open>
  C3 (the code departs from its own comment).  \<^verbatim>\<open>convertToDuration\<close> is documented
  to read its argument as milliseconds, and a TTL of \<open>t\<close> should reach the store as
  \<open>t\<close> milliseconds.  At \<open>t = 1\<close> the set handler hands the store a duration of 1000
  nanoseconds, which is one microsecond and not \<open>1 * Millisecond\<close>.
\<close>

theorem convertToDuration_one_is_microsecond:
  "convertToDuration 1 = 1000
   \<and> convertToDuration 1 \<noteq> 1 * Millisecond
   \<and> Driver_set db \<lparr>key = k, val = v, exp = 1\<rparr> s = (''Success'', Set db k (Str v) 1000 s)"
  by (simp add: convertToDuration_def Millisecond_def Driver_set_def)

section \<open>Properties of the parser\<close>

lemma parse_program_only_end:
  "list_all (\<lambda>t. kind t = EndOfInput) toks \<Longrightarrow> parse_program toks = Inr []"
  by (cases toks) simp_all

text \<open>
  C8.  When the token stream of a source text holds nothing but end-of-input,
  \<open>Parse\<close> returns an AST with no statement and no error, and \<open>Operate\<close> writes
  nothing and leaves the state as it is.
\<close>

theorem Parse_empty_request:
  assumes "lexer src = Inr toks" and "list_all (\<lambda>t. kind t = EndOfInput) toks"
  shows "Parse src = (Some \<lparr>Statements = []\<rparr>, None)
         \<and> Operate Parse db src w s = Inr (w, s)"
  using assms parse_program_only_end [of toks]
  by (simp add: Parse_def Operate_def)

text \<open>
  C7.  The test \<^verbatim>\<open>MULTI SET STATEMENTS\<close>: the source is parsed into two Set
  statements in source order, the first with key \<^verbatim>\<open>data\<close>, value \<^verbatim>\<open>Hello World\<close>
  and TTL 234, the second with key \<^verbatim>\<open>data1\<close>, the string \<^verbatim>\<open>3454\<close> as its value
  and TTL 565.
\<close>

theorem Parse_two_sets:
  \<open>Parse ''SET data "Hello World" 234; SET data1 3454 565;'' =
     (Some \<lparr>Statements =
        [\<lparr>SetStatement = Some \<lparr>key = ''data'', val = ''Hello World'', exp = 234\<rparr>,
          GetStatement = None, DeleteStatement = None, AuthStatement = None, Typ = SetType\<rparr>,
         \<lparr>SetStatement = Some \<lparr>key = ''data1'', val = ''3454'', exp = 565\<rparr>,
          GetStatement = None, DeleteStatement = None, AuthStatement = None, Typ = SetType\<rparr>]\<rparr>,
      None)\<close>
  by code_simp

section \<open>The theorems at concrete requests\<close>

text \<open>What a lookup on \<open>example_stored\<close> answers.\<close>

lemma example_stored_get:
  "Get (Session_DB (- 1)) k example_stored =
     (if k = ''data'' then ((Str ''hello'', True), example_stored) else ((nil, False), example_stored))"
  by (simp add: Session_DB_def Session_Get_def example_stored_def Session_Set_def
      example_session_def RapidoDB_New_def Store_Get_def Store_Set_def Store_New_def
      newItem_def isExpired_def example_now_def Time_Add_def Time_UnixNano_def Time_Unix_def
      word_sless_alt)


text \<open>C4: \<^verbatim>\<open>GET data other;\<close> with \<^verbatim>\<open>other\<close> never set.\<close>

theorem Driver_get_positional_witness:
  "get_loop (Session_DB (- 1)) (keys \<lparr>keys = [''data'', ''other'']\<rparr>) [] example_stored =
     ([Str ''hello'', nil], example_stored)
   \<and> length [Str ''hello'', nil] = length (keys \<lparr>keys = [''data'', ''other'']\<rparr>)
   \<and> [Str ''hello'', nil] ! 1 = nil
   \<and> Driver_get (Session_DB (- 1)) \<lparr>keys = [''data'', ''other'']\<rparr> example_stored =
     (''[hello <nil>]'', example_stored)
   \<and> exec_stmt (Session_DB (- 1)) (get_statement [''data'', ''other'']) [] example_stored =
     Inr ([''[hello <nil>]'' @ [CHR 0x0A]], example_stored)
   \<and> CHR 0x0A \<notin> set ''[hello <nil>]''"
proof -
  have h: "get_loop (Session_DB (- 1)) (keys \<lparr>keys = [''data'', ''other'']\<rparr>) [] example_stored =
     ([Str ''hello'', nil], example_stored)"
    by (simp add: example_stored_get)
  from Driver_get_positional [OF h, of "[]" "- 1" "[]" example_stored] h show ?thesis
    by (simp add: Let_def)
qed

text \<open>
  C4 as the claim states it fails in two ways.  A quoted value may hold a line feed:
  after \<^verbatim>\<open>SET data "a<LF>b"\<close> the one response to \<^verbatim>\<open>GET data\<close> holds two line
  feeds, so it is two lines.  And a key whose TTL has run out is not answered with
  the marker: ten seconds after \<^verbatim>\<open>SET k v 1\<close> the response to \<^verbatim>\<open>GET k other\<close>
  still holds \<^verbatim>\<open>v\<close> (the expiry is compared in the wrong unit, see C2).
\<close>

theorem get_response_counterexample:
  \<open>Parse (''SET data "a'' @ [CHR 0x0A] @ ''b"; GET data;'') =
     (Some \<lparr>Statements = [set_statement ''data'' (''a'' @ [CHR 0x0A] @ ''b'') 0,
                          get_statement [''data'']]\<rparr>, None)
   \<and> written (Operate Parse (Session_DB (- 1)) (''SET data "a'' @ [CHR 0x0A] @ ''b"; GET data;'')
        [] example_session) =
     [''Success'' @ [CHR 0x0A], ''[a'' @ [CHR 0x0A] @ ''b]'' @ [CHR 0x0A]]
   \<and> length (filter (\<lambda>c. c = CHR 0x0A) (''[a'' @ [CHR 0x0A] @ ''b]'' @ [CHR 0x0A])) = 2
   \<and> written (Operate Parse (Session_DB (- 1)) ''GET k other;'' []
        (advance 10000000000
           (final_state (Operate Parse (Session_DB (- 1)) ''SET k v 1;'' [] example_session)))) =
     [''[v <nil>]'' @ [CHR 0x0A]]\<close>
  by code_simp

text \<open>C5: \<^verbatim>\<open>GET;\<close> has no key, so \<open>Parse\<close> returns an error.\<close>

theorem Operate_parse_error_witness:
  "Parse ''GET;'' = (None, Some ''ParseError: unexpected token ;, expected one of: identifier'')
   \<and> Operate Parse (Session_DB (- 1)) ''GET;'' [] example_session =
       Inr ([''ERROR: ParseError: unexpected token ;, expected one of: identifier'' @ [CHR 0x0A]],
            example_session)"
proof -
  have p: "Parse ''GET;'' = (None, Some ''ParseError: unexpected token ;, expected one of: identifier'')"
    by code_simp
  from Operate_parse_error [where parse = Parse and src = "''GET;''" and db = "Session_DB (- 1)"
      and w = "[]" and s = example_session and db' = "Session_DB (- 1)", OF p] p
  show ?thesis by simp
qed

text \<open>C6: the bootstrap user authenticates.\<close>

theorem Driver_auth_line_witness:
  "Authenticate (Session_DB (- 1)) ''admin'' ''secret'' example_session =
     (True, example_session\<lparr>authenticated := True,
              activeUser := Some (NewRegisteredUser ''admin'' ''secret'' AdminAccess)\<rparr>)
   \<and> exec_stmt (Session_DB (- 1)) (auth_statement ''admin'' ''secret'') [] example_session =
     Inr ([''Successfully authenticated'' @ [CHR 0x0A]],
          example_session\<lparr>authenticated := True,
              activeUser := Some (NewRegisteredUser ''admin'' ''secret'' AdminAccess)\<rparr>)"
proof -
  have a: "Authenticate (Session_DB (- 1)) (username \<lparr>username = ''admin'', password = ''secret''\<rparr>)
      (password \<lparr>username = ''admin'', password = ''secret''\<rparr>) example_session =
     (True, example_session\<lparr>authenticated := True,
              activeUser := Some (NewRegisteredUser ''admin'' ''secret'' AdminAccess)\<rparr>)"
    by (simp add: Session_DB_def Session_Authenticate_def example_session_def RapidoDB_New_def
        Store_Get_def Store_Set_def Store_New_def newItem_def isExpired_def NewRegisteredUser_def)
  have t: "Typ (auth_statement ''admin'' ''secret'') = AuthType"
    and s: "AuthStatement (auth_statement ''admin'' ''secret'') =
            Some \<lparr>username = ''admin'', password = ''secret''\<rparr>"
    by (simp_all add: auth_statement_def)
  from Driver_auth_line [OF t s a, of "[]"] a show ?thesis by simp
qed

text \<open>C8: a source text of two spaces.\<close>

theorem Parse_empty_request_witness:
  "lexer ''  '' = Inr [\<lparr>kind = EndOfInput, literal = [], position = 2\<rparr>]
   \<and> Parse ''  '' = (Some \<lparr>Statements = []\<rparr>, None)
   \<and> Operate Parse (Session_DB (- 1)) ''  '' [] example_session = Inr ([], example_session)"
proof -
  have l: "lexer ''  '' = Inr [\<lparr>kind = EndOfInput, literal = [], position = 2\<rparr>]"
    by (simp add: lexer_def is_space_def)
  have e: "list_all (\<lambda>t. kind t = EndOfInput) [\<lparr>kind = EndOfInput, literal = [], position = 2\<rparr>]"
    by simp
  from Parse_empty_request [where src = "''  ''" and db = "Session_DB (- 1)" and w = "[]"
      and s = example_session, OF l e] l
  show ?thesis by simp
qed

text \<open>C10: \<^verbatim>\<open>GET data;\<close> on the session that holds \<^verbatim>\<open>data\<close>.\<close>

theorem get_renderers_agree_witness:
  "all_found (Session_DB (- 1)) (keys \<lparr>keys = [''data'']\<rparr>) example_stored
   \<and> Driver_get (Session_DB (- 1)) \<lparr>keys = [''data'']\<rparr> example_stored =
     Driver_get_part001 (Session_DB (- 1)) \<lparr>keys = [''data'']\<rparr> example_stored"
proof -
  have h: "all_found (Session_DB (- 1)) (keys \<lparr>keys = [''data'']\<rparr>) example_stored"
    by (simp add: example_stored_get)
  from get_renderers_agree [OF h] h show ?thesis by simp
qed

end
